theory Spec2Isabelle
  imports Complex_Main "HOL-Library.Multiset"
begin

section \<open>Reverse image search: embedding, indexing and query (image\_search.py)\<close>

text \<open>
  The module composes three external collaborators: an imaging library that decodes and
  transforms pictures, a frozen network that maps tensors to embeddings, and an
  approximate nearest-neighbour index. None of them is part of the module, so each
  is a parameter of the functions below; what is modelled is the module's own control
  flow: which operation is called, with which arguments, in which order, and what
  happens to a failure.
\<close>

subsection \<open>Data\<close>

text \<open>
  Failures are values. The module defines no exception of its own and catches none, so
  what a collaborator raises is what the caller sees. \<open>FileNotFoundError\<close>,
  \<open>UnidentifiedImageError\<close> and \<open>OSError\<close> are what the imaging library raises
  for a path that does not exist, a file that is not a picture and a picture that cannot
  be read or converted; \<open>IndexError\<close> is Python's own error for a subscript out of
  range. \<open>ImageDecodeError\<close>, \<open>DimensionMismatchError\<close> and \<open>IndexStateError\<close>
  are the error kinds the specification names; no line of the module raises them.
\<close>

datatype error =
    FileNotFoundError | UnidentifiedImageError | OSError | IndexError
  | ImageDecodeError | DimensionMismatchError | IndexStateError

type_synonym embedding = "real list"

text \<open>
  The constants of the \<open>config\<close> module the functions read (\<open>cfg.RESIZE\<close>,
  \<open>cfg.CROP\<close>, \<open>cfg.RESNET18_FEAT\<close>, \<open>cfg.ANNOY_METRIC\<close>, \<open>cfg.ANNOY_TREE\<close>).
  The module is not among the sources, so the constants are parameters.
\<close>

record 'm config =
  RESIZE :: nat
  CROP :: nat
  RESNET18_FEAT :: nat
  ANNOY_METRIC :: 'm
  ANNOY_TREE :: int

text \<open>
  The imaging collaborator: \<open>Image.open(path, 'r')\<close> and \<open>.convert('RGB')\<close> return a
  picture or raise, the four stages of the transform are total on decoded pictures.
\<close>

record ('img, 't) imaging =
  Image_open :: "string \<Rightarrow> error + 'img"
  convert_RGB :: "'img \<Rightarrow> error + 'img"
  Resize :: "nat \<Rightarrow> 'img \<Rightarrow> 'img"
  CenterCrop :: "nat \<Rightarrow> 'img \<Rightarrow> 'img"
  ToTensor :: "'img \<Rightarrow> 't"
  Normalize :: "real list \<Rightarrow> real list \<Rightarrow> 't \<Rightarrow> 't"


subsection \<open>The preprocessing transform\<close>

text \<open>
  \<open>trn.Compose([trn.Resize(cfg.RESIZE), trn.CenterCrop(cfg.CROP), trn.ToTensor(),
  trn.Normalize([0.485, 0.456, 0.406], [0.229, 0.224, 0.225])])\<close>: the stages are applied
  first to last.
\<close>

definition transform :: "('img, 't) imaging \<Rightarrow> 'm config \<Rightarrow> 'img \<Rightarrow> 't" where
  "transform V cfg img =
     Normalize V [0.485, 0.456, 0.406] [0.229, 0.224, 0.225]
       (ToTensor V (CenterCrop V (CROP cfg) (Resize V (RESIZE cfg) img)))"

subsection \<open>Building the index: \<open>get_vector_index\<close>\<close>




subsection \<open>Querying: \<open>eval_test_image\<close>\<close>

text \<open>
  Lines 106 and 107: \<open>Image.open(test_img, 'r').convert('RGB')\<close>, then the transform and
  \<open>unsqueeze(0)\<close>, which makes the tensor a batch of one. Nothing catches what the
  imaging collaborator raises: its exception leaves the function as it is.
\<close>

definition load_test_image ::
  "('img, 't) imaging \<Rightarrow> 'm config \<Rightarrow> string \<Rightarrow> error + 't list"
where
  "load_test_image V cfg test_img =
     (case Image_open V test_img of
        Inl e \<Rightarrow> Inl e
      | Inr opened \<Rightarrow>
          (case convert_RGB V opened of
             Inl e \<Rightarrow> Inl e
           | Inr data \<Rightarrow> Inr [transform V cfg data]))"

text \<open>
  \<open>get_nns_by_vector\<close> is the query of the index collaborator, called with
  \<open>include_distances=True\<close>: it returns a pair of lists, or raises. \<open>feature[0]\<close>
  raises \<open>IndexError\<close> on an empty batch of embeddings. The function returns
  \<open>searches[0], searches[1]\<close>.
\<close>

definition eval_test_image ::
  "('img, 't) imaging \<Rightarrow> 'm config
     \<Rightarrow> ('ix \<Rightarrow> embedding \<Rightarrow> nat \<Rightarrow> bool \<Rightarrow> error + (int list \<times> real list))
     \<Rightarrow> string \<Rightarrow> ('t list \<Rightarrow> embedding list) \<Rightarrow> 'ix \<Rightarrow> nat
     \<Rightarrow> error + (int list \<times> real list)"
where
  "eval_test_image V cfg get_nns_by_vector test_img model annoy_index top_n =
     (case load_test_image V cfg test_img of
        Inl e \<Rightarrow> Inl e
      | Inr data \<Rightarrow>
          (let feature = model data in
           if feature = [] then Inl IndexError
           else (case get_nns_by_vector annoy_index (feature ! 0) top_n True of
                   Inl e \<Rightarrow> Inl e
                 | Inr searches \<Rightarrow> Inr (fst searches, snd searches))))"

subsection \<open>The indexing contract in the words of the specification\<close>









subsection \<open>The vector index of the specification\<close>

text \<open>
  Modelled from the spec: the query of the Vector Index (section 4.3), which in the
  program is \<open>get_nns_by_vector\<close> of the annoy library and is not among the sources.
  The index holds the inserted (identifier, embedding) pairs, the distance fixed at its
  construction, and whether \<open>build\<close> has been called. A query is valid only on a built
  index and fails with \<open>IndexStateError\<close> otherwise; it ranks the items by their
  distance to the query vector, ascending, and returns up to \<open>top_k\<close> of them, with
  the distances when asked. The ranking here is exact: every item is a candidate.
\<close>

record vector_index =
  metric :: "embedding \<Rightarrow> embedding \<Rightarrow> real"
  items :: "(int \<times> embedding) list"
  built :: bool

definition query ::
  "vector_index \<Rightarrow> embedding \<Rightarrow> nat \<Rightarrow> bool \<Rightarrow> error + (int list \<times> real list)" where
  "query idx v top_k with_distances =
     (if \<not> built idx then Inl IndexStateError
      else (let ranked = take top_k
                  (sort_key snd (map (\<lambda>(i, e). (i, metric idx v e)) (items idx)))
            in Inr (map fst ranked, if with_distances then map snd ranked else [])))"

subsection \<open>Concrete collaborators for the worked examples\<close>

text \<open>
  A small instance of every parameter, on which the functions can be run: pictures and
  tensors are numbers; \<open>query.jpg\<close> is a picture, \<open>cmyk.bin\<close> opens but cannot be
  converted, \<open>notes.txt\<close> is no picture and any other path does not exist; the network
  turns a tensor \<open>n\<close> into the embedding \<open>[n / 4, 0]\<close>.
\<close>

definition example_cfg :: "string config" where
  "example_cfg =
     \<lparr>RESIZE = 256, CROP = 224, RESNET18_FEAT = 512, ANNOY_METRIC = ''angular'',
      ANNOY_TREE = 20\<rparr>"

definition example_imaging :: "(nat, nat) imaging" where
  "example_imaging =
     \<lparr>Image_open = (\<lambda>p. if p = ''query.jpg'' then Inr 3
                         else if p = ''cmyk.bin'' then Inr 0
                         else if p = ''notes.txt'' then Inl UnidentifiedImageError
                         else Inl FileNotFoundError),
      convert_RGB = (\<lambda>x. if x = 0 then Inl OSError else Inr x),
      Resize = (\<lambda>s x. x),
      CenterCrop = (\<lambda>c x. x),
      ToTensor = (\<lambda>x. x),
      Normalize = (\<lambda>m s x. x + 1)\<rparr>"

definition example_model :: "nat list \<Rightarrow> embedding list" where
  "example_model = map (\<lambda>n. [real n / 4, 0])"

definition example_index :: vector_index where
  "example_index =
     \<lparr>metric = (\<lambda>u v. sum_list (map2 (\<lambda>a b. \<bar>a - b\<bar>) u v)),
      items = [(0, [1, 0]), (1, [0, 1]), (2, [9 / 10, 1 / 10])],
      built = True\<rparr>"

definition example_nns ::
  "(int \<times> real) list \<Rightarrow> embedding \<Rightarrow> nat \<Rightarrow> bool \<Rightarrow> error + (int list \<times> real list)" where
  "example_nns stored v n include_distances =
     Inr (map fst (take n stored), map snd (take n stored))"

section \<open>Properties\<close>

subsection \<open>The loops of \<open>get_vector_index\<close>\<close>















subsection \<open>Failures of the imaging collaborator in \<open>eval_test_image\<close>\<close>

text \<open>
  C9, as amended. When \<open>Image.open\<close> raises on the path, or \<open>convert('RGB')\<close> raises
  on the opened picture, \<open>eval_test_image\<close> fails with that very exception, whatever
  the network and the index are. When the picture opens and converts, the preprocessing
  step does not raise: it yields the transformed picture as a batch of one, and
  \<open>eval_test_image\<close> goes on to the network and the index, so that it fails only with
  \<open>IndexError\<close> on an empty batch of embeddings or with what the query raises, and
  otherwise returns what the query returns.
\<close>

theorem eval_test_image_decode_error:
  "(\<forall>e. Image_open V test_img = Inl e \<longrightarrow>
      eval_test_image V cfg get_nns_by_vector test_img model annoy_index top_n = Inl e)
 \<and> (\<forall>opened e. Image_open V test_img = Inr opened \<and> convert_RGB V opened = Inl e \<longrightarrow>
      eval_test_image V cfg get_nns_by_vector test_img model annoy_index top_n = Inl e)
 \<and> (\<forall>opened data.
      Image_open V test_img = Inr opened \<and> convert_RGB V opened = Inr data \<longrightarrow>
        load_test_image V cfg test_img = Inr [transform V cfg data]
      \<and> eval_test_image V cfg get_nns_by_vector test_img model annoy_index top_n
          = (if model [transform V cfg data] = [] then Inl IndexError
             else (case get_nns_by_vector annoy_index (model [transform V cfg data] ! 0)
                          top_n True of
                     Inl e \<Rightarrow> Inl e
                   | Inr searches \<Rightarrow> Inr searches)))"
proof -
  let ?run = "eval_test_image V cfg get_nns_by_vector test_img model annoy_index top_n"
  have not_opened: "?run = Inl e" if "Image_open V test_img = Inl e" for e
  proof -
    from that have "load_test_image V cfg test_img = Inl e"
      by (simp add: load_test_image_def)
    then show ?thesis by (simp add: eval_test_image_def)
  qed
  have not_converted: "?run = Inl e"
    if "Image_open V test_img = Inr opened" and "convert_RGB V opened = Inl e" for opened e
  proof -
    from that have "load_test_image V cfg test_img = Inl e"
      by (simp add: load_test_image_def)
    then show ?thesis by (simp add: eval_test_image_def)
  qed
  have decoded: "load_test_image V cfg test_img = Inr [transform V cfg data]"
    if "Image_open V test_img = Inr opened" and "convert_RGB V opened = Inr data"
    for opened data
    using that by (simp add: load_test_image_def)
  have going_on: "?run
        = (if model [transform V cfg data] = [] then Inl IndexError
           else (case get_nns_by_vector annoy_index (model [transform V cfg data] ! 0)
                        top_n True of
                   Inl e \<Rightarrow> Inl e
                 | Inr searches \<Rightarrow> Inr searches))"
    if "Image_open V test_img = Inr opened" and "convert_RGB V opened = Inr data"
    for opened data
    using decoded [OF that] by (simp add: eval_test_image_def split: sum.splits)
  show ?thesis
  proof (intro conjI allI impI)
    fix e assume "Image_open V test_img = Inl e"
    then show "?run = Inl e" by (rule not_opened)
  next
    fix opened e
    assume "Image_open V test_img = Inr opened \<and> convert_RGB V opened = Inl e"
    then show "?run = Inl e" using not_converted by blast
  next
    fix opened data
    assume "Image_open V test_img = Inr opened \<and> convert_RGB V opened = Inr data"
    then show "load_test_image V cfg test_img = Inr [transform V cfg data]"
      using decoded by blast
  next
    fix opened data
    assume both: "Image_open V test_img = Inr opened \<and> convert_RGB V opened = Inr data"
    show "?run
        = (if model [transform V cfg data] = [] then Inl IndexError
           else (case get_nns_by_vector annoy_index (model [transform V cfg data] ! 0)
                        top_n True of
                   Inl e \<Rightarrow> Inl e
                 | Inr searches \<Rightarrow> Inr searches))"
      by (rule going_on [OF both [THEN conjunct1] both [THEN conjunct2]])
  qed
qed

theorem eval_test_image_decode_error_witness:
  "Image_open example_imaging ''missing.jpg'' = Inl FileNotFoundError
 \<and> eval_test_image example_imaging example_cfg example_nns ''missing.jpg'' example_model
      [(7, 1 / 10)] 5 = Inl FileNotFoundError
 \<and> Image_open example_imaging ''notes.txt'' = Inl UnidentifiedImageError
 \<and> eval_test_image example_imaging example_cfg example_nns ''notes.txt'' example_model
      [(7, 1 / 10)] 5 = Inl UnidentifiedImageError
 \<and> Image_open example_imaging ''cmyk.bin'' = Inr 0
 \<and> convert_RGB example_imaging 0 = Inl OSError
 \<and> eval_test_image example_imaging example_cfg example_nns ''cmyk.bin'' example_model
      [(7, 1 / 10)] 5 = Inl OSError
 \<and> Image_open example_imaging ''query.jpg'' = Inr 3
 \<and> convert_RGB example_imaging 3 = Inr 3
 \<and> load_test_image example_imaging example_cfg ''query.jpg'' = Inr [4]
 \<and> eval_test_image example_imaging example_cfg example_nns ''query.jpg'' example_model
      [(7, 1 / 10)] 5 = Inr ([7], [1 / 10])"
proof -
  have missing: "Image_open example_imaging ''missing.jpg'' = Inl FileNotFoundError"
    by (simp add: example_imaging_def)
  have no_picture: "Image_open example_imaging ''notes.txt'' = Inl UnidentifiedImageError"
    by (simp add: example_imaging_def)
  have opened: "Image_open example_imaging ''cmyk.bin'' = Inr 0"
    by (simp add: example_imaging_def)
  have unconvertible: "convert_RGB example_imaging 0 = Inl OSError"
    by (simp add: example_imaging_def)
  have readable: "Image_open example_imaging ''query.jpg'' = Inr 3"
    by (simp add: example_imaging_def)
  have convertible: "convert_RGB example_imaging 3 = Inr 3"
    by (simp add: example_imaging_def)
  have tensor: "transform example_imaging example_cfg 3 = 4"
    by (simp add: transform_def example_imaging_def)
  have row: "example_model [4] = [[1, 0]]"
    by (simp add: example_model_def)
  have found: "example_nns [(7, 1 / 10)] [1, 0] 5 True = Inr ([7], [1 / 10])"
    by (simp add: example_nns_def)
  show ?thesis
    using missing no_picture opened unconvertible readable convertible tensor row found
      eval_test_image_decode_error [where V = example_imaging and test_img = "''missing.jpg''"
        and cfg = example_cfg and get_nns_by_vector = example_nns and model = example_model
        and annoy_index = "[(7, 1 / 10)]" and top_n = 5]
      eval_test_image_decode_error [where V = example_imaging and test_img = "''notes.txt''"
        and cfg = example_cfg and get_nns_by_vector = example_nns and model = example_model
        and annoy_index = "[(7, 1 / 10)]" and top_n = 5]
      eval_test_image_decode_error [where V = example_imaging and test_img = "''cmyk.bin''"
        and cfg = example_cfg and get_nns_by_vector = example_nns and model = example_model
        and annoy_index = "[(7, 1 / 10)]" and top_n = 5]
      eval_test_image_decode_error [where V = example_imaging and test_img = "''query.jpg''"
        and cfg = example_cfg and get_nns_by_vector = example_nns and model = example_model
        and annoy_index = "[(7, 1 / 10)]" and top_n = 5]
    by simp
qed

text \<open>
  The claim C9 as it was stated fails on a path that does not exist: \<open>eval_test_image\<close>
  fails with the \<open>FileNotFoundError\<close> that \<open>Image.open\<close> raised, which is not an
  \<open>ImageDecodeError\<close>.
\<close>

theorem eval_test_image_missing_file:
  "Image_open example_imaging ''missing.jpg'' = Inl FileNotFoundError
 \<and> eval_test_image example_imaging example_cfg example_nns ''missing.jpg'' example_model
      [(7, 1 / 10)] 5 = Inl FileNotFoundError
 \<and> eval_test_image example_imaging example_cfg example_nns ''missing.jpg'' example_model
      [(7, 1 / 10)] 5 \<noteq> Inl ImageDecodeError"
  by (simp add: eval_test_image_def load_test_image_def example_imaging_def)

subsection \<open>Ranking\<close>

lemma ranked_sorted: "sorted (map snd (take k (sort_key snd xs)))"
proof -
  have "sorted (map snd (sort_key snd xs))" by (rule sorted_sort_key)
  then have "sorted (take k (map snd (sort_key snd xs)))" by (rule sorted_wrt_take)
  then show ?thesis by (simp add: take_map)
qed

lemma ranked_mset: "mset (take k (sort_key snd xs)) \<subseteq># mset xs"
proof -
  have "mset (take k (sort_key snd xs)) \<subseteq># mset (sort_key snd xs)"
    by (metis append_take_drop_id mset_append mset_subset_eq_add_left)
  then show ?thesis by simp
qed

lemma zip_fst_snd: "zip (map fst xs) (map snd xs) = xs"
  by (induction xs) auto

text \<open>
  C2. On a built index of the specification, for a picture that decodes and any
  \<open>top_n\<close>, \<open>eval_test_image\<close> does not fail; the identifiers and distances it returns
  are as many as the smaller of \<open>top_n\<close> and the number of indexed items, the distances
  ascend, every returned pair is an indexed identifier with its distance to the query
  embedding, and when \<open>top_n\<close> is at least the number of items all of them are returned.
\<close>

theorem eval_test_image_ranked:
  assumes "built idx"
    and "load_test_image V cfg test_img = Inr data"
    and "model data \<noteq> []"
  shows "\<exists>ids ds.
           eval_test_image V cfg query test_img model idx top_n = Inr (ids, ds)
         \<and> length ids = min top_n (length (items idx))
         \<and> length ds = length ids
         \<and> sorted ds
         \<and> mset (zip ids ds)
              \<subseteq># mset (map (\<lambda>(i, e). (i, metric idx (model data ! 0) e)) (items idx))
         \<and> (length (items idx) \<le> top_n \<longrightarrow>
              mset (zip ids ds)
                = mset (map (\<lambda>(i, e). (i, metric idx (model data ! 0) e)) (items idx)))"
proof -
  define scored where "scored = map (\<lambda>(i, e). (i, metric idx (model data ! 0) e)) (items idx)"
  define ranked where "ranked = take top_n (sort_key snd scored)"
  have run: "eval_test_image V cfg query test_img model idx top_n
               = Inr (map fst ranked, map snd ranked)"
    using assms by (simp add: eval_test_image_def query_def Let_def ranked_def scored_def)
  have len: "length ranked = min top_n (length (items idx))"
    by (simp add: ranked_def scored_def min.commute)
  have srt: "sorted (map snd ranked)"
    unfolding ranked_def by (rule ranked_sorted)
  have sub: "mset ranked \<subseteq># mset scored"
    unfolding ranked_def by (rule ranked_mset)
  have all: "length (items idx) \<le> top_n \<longrightarrow> mset ranked = mset scored"
    by (simp add: ranked_def scored_def)
  show ?thesis
    using run len srt sub all
    by (intro exI [of _ "map fst ranked"] exI [of _ "map snd ranked"])
       (simp add: zip_fst_snd scored_def)
qed

theorem eval_test_image_ranked_witness:
  "built example_index
 \<and> load_test_image example_imaging example_cfg ''query.jpg'' = Inr [4]
 \<and> example_model [4] \<noteq> []
 \<and> eval_test_image example_imaging example_cfg query ''query.jpg'' example_model
      example_index 5 = Inr ([0, 2, 1], [0, 1 / 5, 2])
 \<and> (\<exists>ids ds.
        eval_test_image example_imaging example_cfg query ''query.jpg'' example_model
          example_index 5 = Inr (ids, ds)
      \<and> length ids = min 5 (length (items example_index))
      \<and> length ds = length ids
      \<and> sorted ds
      \<and> mset (zip ids ds)
           \<subseteq># mset (map (\<lambda>(i, e). (i, metric example_index (example_model [4] ! 0) e))
                       (items example_index))
      \<and> (length (items example_index) \<le> 5 \<longrightarrow>
           mset (zip ids ds)
             = mset (map (\<lambda>(i, e). (i, metric example_index (example_model [4] ! 0) e))
                      (items example_index))))"
proof -
  have is_built: "built example_index"
    by (simp add: example_index_def)
  have decoded: "load_test_image example_imaging example_cfg ''query.jpg'' = Inr [4]"
    by (simp add: load_test_image_def transform_def example_imaging_def)
  have one_row: "example_model [4] \<noteq> []"
    by (simp add: example_model_def)
  have run: "eval_test_image example_imaging example_cfg query ''query.jpg'' example_model
               example_index 5 = Inr ([0, 2, 1], [0, 1 / 5, 2])"
    by (simp add: eval_test_image_def decoded example_model_def query_def example_index_def)
  show ?thesis
    using is_built decoded one_row run
      eval_test_image_ranked [where idx = example_index and V = example_imaging
        and cfg = example_cfg and test_img = "''query.jpg''" and data = "[4]"
        and model = example_model and top_n = 5, OF is_built decoded one_row]
    by (intro conjI) assumption+
qed

end
